theory Spec2Isabelle
  imports Main
begin

section \<open>The voting application \<open>backend/app.py\<close>\<close>

text \<open>
  The program is one Python module: a Flask application with five view functions over a
  single table \<open>votes(id, candidate)\<close>, kept either in a local SQLite file or in a
  Postgres database. Module-level statements run once, at import; the view functions run
  once per request.

  What lies outside the module is part of the model only as far as the module's own text
  depends on it:
  \<^item> a store is its \<open>votes\<close> table: absent, of the shape the program declares, or of
    another shape; a connection to a store is taken to succeed (an unreachable store is
    not modelled), and the Postgres database is taken to be encoded in UTF-8;
  \<^item> the \<open>id\<close> column is filled in by the store from a counter and read by no statement
    of the program, so a row is represented by its \<open>candidate\<close> and the table keeps the
    counter;
  \<^item> a Python string is the list of its code points, so that a lone surrogate and a NUL
    character can be told from the other characters;
  \<^item> what a database driver makes of a parameter that is neither \<open>None\<close> nor a \<open>str\<close> is
    a parameter of the model (\<open>adapter\<close>), as is the builtin \<open>int\<close> on strings.
\<close>

subsection \<open>Python values\<close>

type_synonym pystr = "nat list"

text \<open>A string literal of the program text, as a Python string.\<close>

definition str :: "string \<Rightarrow> pystr" where
  "str s = map of_char s"

text \<open>
  A string is encoded as UTF-8 on its way to either store. A surrogate code point has no
  encoding (\<open>UnicodeEncodeError\<close>); every other code point takes one to four bytes.
\<close>

definition is_surrogate :: "nat \<Rightarrow> bool" where
  "is_surrogate c = (0xD800 \<le> c \<and> c \<le> 0xDFFF)"

definition utf8_encodable :: "pystr \<Rightarrow> bool" where
  "utf8_encodable s = (\<forall>c \<in> set s. \<not> is_surrogate c)"

definition utf8_bytes :: "nat \<Rightarrow> nat" where
  "utf8_bytes c = (if c < 0x80 then 1 else if c < 0x800 then 2 else if c < 0x10000 then 3 else 4)"

definition utf8_length :: "pystr \<Rightarrow> nat" where
  "utf8_length s = sum_list (map utf8_bytes s)"

text \<open>
  The values \<open>request.get_json\<close> and \<open>request.form.get\<close> can return. A float is its
  mantissa and binary exponent, an infinity (negative when the flag is set) or NaN.
  A \<open>PDict\<close> lists each key once.
\<close>

datatype pyfloat = Finite int int | Infinite bool | NaN

datatype pyval =
    PNone
  | PBool bool
  | PInt int
  | PFloat pyfloat
  | PStr pystr
  | PList "pyval list"
  | PDict "(pystr \<times> pyval) list"

datatype error =
    RuntimeError string
  | TypeError
  | KeyError
  | ValueError
  | AttributeError
  | UnicodeEncodeError
  | IntegrityError
  | DataError
  | OperationalError
  | ProgrammingError
  | InterfaceError
  | OverflowError

text \<open>Truth value testing, as in \<open>if provider:\<close>, \<open>not data\<close> and \<open>bool(DB_HOST)\<close>.\<close>

fun truthy :: "pyval \<Rightarrow> bool" where
  "truthy PNone = False"
| "truthy (PBool b) = b"
| "truthy (PInt n) = (n \<noteq> 0)"
| "truthy (PFloat (Finite m e)) = (m \<noteq> 0)"
| "truthy (PFloat (Infinite s)) = True"
| "truthy (PFloat NaN) = True"
| "truthy (PStr s) = (s \<noteq> [])"
| "truthy (PList xs) = (xs \<noteq> [])"
| "truthy (PDict kvs) = (kvs \<noteq> [])"

fun is_prefix :: "pystr \<Rightarrow> pystr \<Rightarrow> bool" where
  "is_prefix [] s = True"
| "is_prefix (c # cs) [] = False"
| "is_prefix (c # cs) (d # ds) = (c = d \<and> is_prefix cs ds)"

fun str_contains :: "pystr \<Rightarrow> pystr \<Rightarrow> bool" where
  "str_contains sub [] = (sub = [])"
| "str_contains sub (c # cs) = (is_prefix sub (c # cs) \<or> str_contains sub cs)"

text \<open>
  The operator \<open>key in data\<close> for a string key: key membership on a dict, element
  membership on a list, substring test on a string, \<open>TypeError\<close> on a value that is not
  a container.
\<close>

fun py_contains :: "pyval \<Rightarrow> pystr \<Rightarrow> error + bool" where
  "py_contains (PDict kvs) k = Inr (k \<in> set (map fst kvs))"
| "py_contains (PList xs) k = Inr (PStr k \<in> set xs)"
| "py_contains (PStr s) k = Inr (str_contains k s)"
| "py_contains PNone k = Inl TypeError"
| "py_contains (PBool b) k = Inl TypeError"
| "py_contains (PInt n) k = Inl TypeError"
| "py_contains (PFloat f) k = Inl TypeError"

text \<open>
  The subscription \<open>data[key]\<close> for a string key: the value on a dict (\<open>KeyError\<close> when
  the key is missing), \<open>TypeError\<close> on every other value (a list and a string take
  integer indices only).
\<close>

fun py_getitem :: "pyval \<Rightarrow> pystr \<Rightarrow> error + pyval" where
  "py_getitem (PDict kvs) k = (case map_of kvs k of None \<Rightarrow> Inl KeyError | Some v \<Rightarrow> Inr v)"
| "py_getitem (PList xs) k = Inl TypeError"
| "py_getitem (PStr s) k = Inl TypeError"
| "py_getitem PNone k = Inl TypeError"
| "py_getitem (PBool b) k = Inl TypeError"
| "py_getitem (PInt n) k = Inl TypeError"
| "py_getitem (PFloat f) k = Inl TypeError"

subsection \<open>The stores and the module's globals\<close>

text \<open>
  The table \<open>votes\<close> of a store. \<open>Votes rows n\<close> is a table of the declared shape: the
  candidates of its rows in insertion order, and the last id its counter has handed out
  (the \<open>AUTOINCREMENT\<close> record of SQLite, the sequence behind \<open>SERIAL\<close> in Postgres).
  \<open>Foreign_table\<close> is a table of that name which has no column \<open>candidate\<close>, as another
  program may have left it.
\<close>

datatype table = No_table | Foreign_table | Votes "pystr list" nat

record world =
  sqlite_file :: table
  postgres_db :: table

text \<open>
  An \<open>adapter\<close> is what a driver module makes of a query parameter that is neither \<open>None\<close>
  nor a \<open>str\<close>, before the statement runs: the text that is sent for the \<open>candidate\<close>
  column, or the exception raised.
\<close>

type_synonym adapter = "pyval \<Rightarrow> error + pystr"

text \<open>
  What the import of the module finds: the process environment, the driver modules
  (\<open>psycopg2_import\<close> is \<open>None\<close> when \<open>import psycopg2\<close> raised) and the builtin \<open>int\<close>
  applied to a string.
\<close>

record runtime =
  environ :: "string \<rightharpoonup> pystr"
  psycopg2_import :: "adapter option"
  sqlite3_import :: adapter
  int_builtin :: "pystr \<Rightarrow> error + int"

text \<open>The module's globals, assigned once by the module-level statements.\<close>

record app =
  DB_HOST :: pyval
  DB_NAME :: pystr
  DB_USER :: pyval
  DB_PASS :: pyval
  DB_PORT :: int
  USE_POSTGRES :: bool
  psycopg2 :: "adapter option"
  sqlite3 :: adapter

text \<open>\<open>os.environ.get(key)\<close>: the value, or \<open>None\<close>.\<close>

definition environ_get :: "runtime \<Rightarrow> string \<Rightarrow> pyval" where
  "environ_get rt k = (case environ rt k of None \<Rightarrow> PNone | Some v \<Rightarrow> PStr v)"

subsection \<open>Initialisation\<close>

text \<open>
  \<open>CREATE TABLE IF NOT EXISTS votes (...)\<close> on one store: a table of that name, whatever
  its shape, is left as it is.
\<close>

definition create_table_if_not_exists :: "table \<Rightarrow> table" where
  "create_table_if_not_exists t = (case t of No_table \<Rightarrow> Votes [] 0 | _ \<Rightarrow> t)"

definition init_sqlite :: "world \<Rightarrow> world" where
  "init_sqlite w = w\<lparr>sqlite_file := create_table_if_not_exists (sqlite_file w)\<rparr>"

definition init_postgres :: "adapter option \<Rightarrow> world \<Rightarrow> error + world" where
  "init_postgres drv w =
     (case drv of
        None \<Rightarrow> Inl (RuntimeError ''psycopg2 is required for Postgres usage. Install psycopg2-binary.'')
      | Some d \<Rightarrow> Inr (w\<lparr>postgres_db := create_table_if_not_exists (postgres_db w)\<rparr>))"

text \<open>The dispatch \<open>if USE_POSTGRES: init_postgres() else: init_sqlite()\<close>.\<close>

definition init_db :: "bool \<Rightarrow> adapter option \<Rightarrow> world \<Rightarrow> error + world" where
  "init_db use_postgres drv w =
     (if use_postgres then init_postgres drv w else Inr (init_sqlite w))"

text \<open>
  \<open>DB_PORT = int(os.environ.get('DB_PORT', 5432)) if os.environ.get('DB_PORT') else 5432\<close>
\<close>

definition db_port :: "runtime \<Rightarrow> error + int" where
  "db_port rt =
     (if truthy (environ_get rt ''DB_PORT'')
      then (case environ rt ''DB_PORT'' of None \<Rightarrow> Inr 5432 | Some p \<Rightarrow> int_builtin rt p)
      else Inr 5432)"

text \<open>
  The module-level statements in order: the configuration is read, the selection is
  computed, the selected store is initialised. An exception ends the import, and with it
  the process; the world is returned as the exception left it.
\<close>

definition startup :: "runtime \<Rightarrow> world \<Rightarrow> (error + app) \<times> world" where
  "startup rt w =
     (case db_port rt of
        Inl e \<Rightarrow> (Inl e, w)
      | Inr port \<Rightarrow>
          (let host = environ_get rt ''DB_HOST'';
               use_postgres = truthy host
           in case init_db use_postgres (psycopg2_import rt) w of
                Inl e \<Rightarrow> (Inl e, w)
              | Inr w' \<Rightarrow>
                  (Inr \<lparr>DB_HOST = host,
                        DB_NAME = (case environ rt ''DB_NAME'' of
                                     None \<Rightarrow> str ''postgres'' | Some n \<Rightarrow> n),
                        DB_USER = environ_get rt ''DB_USER'',
                        DB_PASS = environ_get rt ''DB_PASS'',
                        DB_PORT = port,
                        USE_POSTGRES = use_postgres,
                        psycopg2 = psycopg2_import rt,
                        sqlite3 = sqlite3_import rt\<rparr>, w')))"

subsection \<open>The database helpers\<close>

text \<open>
  The limits of the stores: the largest \<open>INTEGER PRIMARY KEY\<close> of SQLite, the largest
  value of the sequence behind a \<open>SERIAL\<close> column, and the longest text SQLite takes as a
  parameter, in bytes (its default \<open>SQLITE_MAX_LENGTH\<close>).
\<close>

definition sqlite_max_rowid :: nat where
  "sqlite_max_rowid = 9223372036854775807"

definition postgres_max_serial :: nat where
  "postgres_max_serial = 2147483647"

definition sqlite_max_length :: nat where
  "sqlite_max_length = 1000000000"

text \<open>
  What the \<open>sqlite3\<close> module binds to the parameter: \<open>NULL\<close> for \<open>None\<close> (the result
  \<open>None\<close> here), the UTF-8 text of a \<open>str\<close>. A \<open>str\<close> with a surrogate raises
  \<open>UnicodeEncodeError\<close>; a text beyond the length limit is refused (\<open>DataError\<close>;
  \<open>InterfaceError\<close> before Python 3.11).
\<close>

fun sqlite_bind :: "adapter \<Rightarrow> pyval \<Rightarrow> error + pystr option" where
  "sqlite_bind d PNone = Inr None"
| "sqlite_bind d (PStr s) =
     (if \<not> utf8_encodable s then Inl UnicodeEncodeError
      else if sqlite_max_length < utf8_length s then Inl DataError
      else Inr (Some s))"
| "sqlite_bind d v = (case d v of Inl e \<Rightarrow> Inl e | Inr t \<Rightarrow> Inr (Some t))"

text \<open>
  What \<open>psycopg2\<close> puts into the statement: \<open>NULL\<close> for \<open>None\<close>, the quoted UTF-8 text of a
  \<open>str\<close>. A \<open>str\<close> with a surrogate raises \<open>UnicodeEncodeError\<close>, one with a NUL character
  \<open>ValueError\<close>.
\<close>

fun psycopg2_adapt :: "adapter \<Rightarrow> pyval \<Rightarrow> error + pystr option" where
  "psycopg2_adapt d PNone = Inr None"
| "psycopg2_adapt d (PStr s) =
     (if \<not> utf8_encodable s then Inl UnicodeEncodeError
      else if 0 \<in> set s then Inl ValueError
      else Inr (Some s))"
| "psycopg2_adapt d v = (case d v of Inl e \<Rightarrow> Inl e | Inr t \<Rightarrow> Inr (Some t))"

text \<open>
  The column \<open>candidate VARCHAR(255)\<close> of the Postgres table: a text longer than 255
  characters is refused, unless the characters in excess are all spaces, which are cut
  off.
\<close>

definition varchar255 :: "pystr \<Rightarrow> error + pystr" where
  "varchar255 s =
     (if length s \<le> 255 then Inr s
      else if (\<forall>c \<in> set (drop 255 s). c = 0x20) then Inr (take 255 s)
      else Inl DataError)"

text \<open>
  \<open>INSERT INTO votes (candidate) VALUES (?)\<close> in the SQLite file. The statement is
  prepared first (\<open>OperationalError\<close> without the table or its column), then the
  parameter is bound, then the row gets the next id (none is left after the largest one:
  \<open>OperationalError\<close>) and \<open>NOT NULL\<close> is checked (\<open>IntegrityError\<close>). A statement that
  fails leaves the file as it was.
\<close>

definition sqlite_insert :: "adapter \<Rightarrow> table \<Rightarrow> pyval \<Rightarrow> error option \<times> table" where
  "sqlite_insert d t x =
     (case t of
        No_table \<Rightarrow> (Some OperationalError, t)
      | Foreign_table \<Rightarrow> (Some OperationalError, t)
      | Votes rows n \<Rightarrow>
          (case sqlite_bind d x of
             Inl e \<Rightarrow> (Some e, t)
           | Inr v \<Rightarrow>
               if \<not> n < sqlite_max_rowid then (Some OperationalError, t)
               else (case v of
                       None \<Rightarrow> (Some IntegrityError, t)
                     | Some c \<Rightarrow> (None, Votes (rows @ [c]) (Suc n)))))"

text \<open>
  \<open>INSERT INTO votes (candidate) VALUES (%s)\<close> in Postgres. The parameter is adapted by
  the driver; then the server looks up the table and its column (\<open>ProgrammingError\<close>),
  fits the text to the column (\<open>DataError\<close>), takes the next value of the sequence (none
  is left after the largest one: \<open>DataError\<close>) and checks \<open>NOT NULL\<close> (\<open>IntegrityError\<close>).
  A value taken from the sequence is not given back when the check fails.
\<close>

definition postgres_insert :: "adapter \<Rightarrow> table \<Rightarrow> pyval \<Rightarrow> error option \<times> table" where
  "postgres_insert d t x =
     (case psycopg2_adapt d x of
        Inl e \<Rightarrow> (Some e, t)
      | Inr v \<Rightarrow>
          (case t of
             No_table \<Rightarrow> (Some ProgrammingError, t)
           | Foreign_table \<Rightarrow> (Some ProgrammingError, t)
           | Votes rows n \<Rightarrow>
               (case v of
                  None \<Rightarrow>
                    if \<not> n < postgres_max_serial then (Some DataError, t)
                    else (Some IntegrityError, Votes rows (Suc n))
                | Some s \<Rightarrow>
                    (case varchar255 s of
                       Inl e \<Rightarrow> (Some e, t)
                     | Inr c \<Rightarrow>
                         if \<not> n < postgres_max_serial then (Some DataError, t)
                         else (None, Votes (rows @ [c]) (Suc n))))))"

text \<open>
  \<open>insert_vote\<close>: the exception raised, or \<open>None\<close> when the function returns, and the
  world it leaves. On the Postgres branch \<open>psycopg2.connect\<close> is an attribute of the
  module object, which is \<open>None\<close> when the import failed.
\<close>

definition insert_vote :: "app \<Rightarrow> pyval \<Rightarrow> world \<Rightarrow> error option \<times> world" where
  "insert_vote a candidate w =
     (if USE_POSTGRES a then
        (case psycopg2 a of
           None \<Rightarrow> (Some AttributeError, w)
         | Some d \<Rightarrow>
             (case postgres_insert d (postgres_db w) candidate of
                (r, t) \<Rightarrow> (r, w\<lparr>postgres_db := t\<rparr>)))
      else
        (case sqlite_insert (sqlite3 a) (sqlite_file w) candidate of
           (r, t) \<Rightarrow> (r, w\<lparr>sqlite_file := t\<rparr>)))"

text \<open>
  \<open>SELECT candidate, COUNT(*) FROM votes GROUP BY candidate\<close>: one row for each distinct
  candidate, with the number of its rows.
\<close>

definition group_by_count :: "pystr list \<Rightarrow> (pystr \<times> int) list" where
  "group_by_count rows = map (\<lambda>c. (c, int (count_list rows c))) (remdups rows)"

text \<open>The dict comprehension \<open>{row[0]: row[1] for row in rows}\<close>.\<close>

definition dict_of_rows :: "(pystr \<times> int) list \<Rightarrow> (pystr \<rightharpoonup> int)" where
  "dict_of_rows rows = foldl (\<lambda>d row. d(fst row \<mapsto> snd row)) Map.empty rows"

definition select_counts :: "error \<Rightarrow> table \<Rightarrow> error + (pystr \<rightharpoonup> int)" where
  "select_counts no_table t =
     (case t of
        Votes rows n \<Rightarrow> Inr (dict_of_rows (group_by_count rows))
      | _ \<Rightarrow> Inl no_table)"

definition get_results :: "app \<Rightarrow> world \<Rightarrow> error + (pystr \<rightharpoonup> int)" where
  "get_results a w =
     (if USE_POSTGRES a then
        (case psycopg2 a of
           None \<Rightarrow> Inl AttributeError
         | Some d \<Rightarrow> select_counts ProgrammingError (postgres_db w))
      else select_counts OperationalError (sqlite_file w))"

subsection \<open>Requests, responses and the view functions\<close>

datatype http_method = GET | HEAD | POST | Other_method

text \<open>
  A request: its path and HTTP method, its form fields (\<open>request.form\<close>) and the value of
  \<open>request.get_json(silent=True)\<close>, which is \<open>None\<close> when the body is absent, is not
  declared as JSON or does not parse.
\<close>

record request =
  path :: string
  request_method :: http_method
  form :: "pystr \<rightharpoonup> pystr"
  json :: pyval

text \<open>
  What a view function returns. \<open>Not_a_view\<close> stands for the answer the framework gives
  by itself to a request that reaches no view function of the module.
\<close>

datatype response =
    Render_index
  | Render_result pyval "pystr \<rightharpoonup> int"
  | Redirect string
  | Jsonify pyval nat
  | Jsonify_results "pystr \<rightharpoonup> int" nat
  | Plain string nat
  | Not_a_view

text \<open>\<open>request.form.get(key)\<close>: the field's value, or \<open>None\<close>.\<close>

definition form_get :: "request \<Rightarrow> pystr \<Rightarrow> pyval" where
  "form_get r k = (case form r k of None \<Rightarrow> PNone | Some v \<Rightarrow> PStr v)"

text \<open>
  The two statements \<open>insert_vote(x); results = get_results()\<close> of the form views,
  followed by the rendering of \<open>result.html\<close>.
\<close>

definition vote_and_render :: "app \<Rightarrow> pyval \<Rightarrow> world \<Rightarrow> (error + response) \<times> world" where
  "vote_and_render a x w =
     (case insert_vote a x w of
        (Some e, w') \<Rightarrow> (Inl e, w')
      | (None, w') \<Rightarrow>
          (case get_results a w' of
             Inl e \<Rightarrow> (Inl e, w')
           | Inr results \<Rightarrow> (Inr (Render_result x results), w')))"

definition index :: "app \<Rightarrow> request \<Rightarrow> world \<Rightarrow> (error + response) \<times> world" where
  "index a r w =
     (if request_method r = POST \<and> truthy (form_get r (str ''option''))
      then vote_and_render a (form_get r (str ''option'')) w
      else (Inr Render_index, w))"

definition vote :: "app \<Rightarrow> request \<Rightarrow> world \<Rightarrow> (error + response) \<times> world" where
  "vote a r w =
     (if truthy (form_get r (str ''option''))
      then vote_and_render a (form_get r (str ''option'')) w
      else (Inr (Redirect ''/''), w))"

definition api_vote :: "app \<Rightarrow> request \<Rightarrow> world \<Rightarrow> (error + response) \<times> world" where
  "api_vote a r w =
     (let data = json r in
      if \<not> truthy data
      then (Inr (Jsonify (PDict [(str ''error'', PStr (str ''option required''))]) 400), w)
      else
        (case py_contains data (str ''option'') of
           Inl e \<Rightarrow> (Inl e, w)
         | Inr False \<Rightarrow>
             (Inr (Jsonify (PDict [(str ''error'', PStr (str ''option required''))]) 400), w)
         | Inr True \<Rightarrow>
             (case py_getitem data (str ''option'') of
                Inl e \<Rightarrow> (Inl e, w)
              | Inr x \<Rightarrow>
                  (case insert_vote a x w of
                     (Some e, w') \<Rightarrow> (Inl e, w')
                   | (None, w') \<Rightarrow>
                       (Inr (Jsonify (PDict [(str ''status'', PStr (str ''ok''))]) 200), w')))))"

definition api_results :: "app \<Rightarrow> world \<Rightarrow> (error + response) \<times> world" where
  "api_results a w =
     (case get_results a w of
        Inl e \<Rightarrow> (Inl e, w)
      | Inr results \<Rightarrow> (Inr (Jsonify_results results 200), w))"

definition health :: "world \<Rightarrow> (error + response) \<times> world" where
  "health w = (Inr (Plain ''OK'' 200), w)"

text \<open>
  The routes declared by the decorators. A route that lists \<open>GET\<close> also answers \<open>HEAD\<close>.
  Every other request is answered by the framework without a view function of the module.
\<close>

definition dispatch :: "app \<Rightarrow> request \<Rightarrow> world \<Rightarrow> (error + response) \<times> world" where
  "dispatch a r w =
     (if path r = ''/'' \<and> request_method r \<in> {GET, HEAD, POST} then index a r w
      else if path r = ''/vote'' \<and> request_method r = POST then vote a r w
      else if path r = ''/api/vote'' \<and> request_method r = POST then api_vote a r w
      else if path r = ''/api/results'' \<and> request_method r \<in> {GET, HEAD} then api_results a w
      else if path r = ''/health'' \<and> request_method r \<in> {GET, HEAD} then health w
      else (Inr Not_a_view, w))"

text \<open>
  The status of the answer of a view function: an exception that leaves it is answered
  with 500; a rendered page is 200, a redirect 302. The status of the framework's own
  answers (not found, method not allowed, an automatic \<open>OPTIONS\<close> answer, a static file)
  is not determined here.
\<close>

fun status_code :: "error + response \<Rightarrow> nat option" where
  "status_code (Inl e) = Some 500"
| "status_code (Inr Render_index) = Some 200"
| "status_code (Inr (Render_result x results)) = Some 200"
| "status_code (Inr (Redirect p)) = Some 302"
| "status_code (Inr (Jsonify v s)) = Some s"
| "status_code (Inr (Jsonify_results m s)) = Some s"
| "status_code (Inr (Plain t s)) = Some s"
| "status_code (Inr Not_a_view) = None"

text \<open>A run of the process: the requests are served one after the other.\<close>

fun serve :: "app \<Rightarrow> request list \<Rightarrow> world \<Rightarrow> (error + response) list \<times> world" where
  "serve a [] w = ([], w)"
| "serve a (r # rs) w =
     (case dispatch a r w of
        (out, w') \<Rightarrow> (case serve a rs w' of (outs, w'') \<Rightarrow> (out # outs, w'')))"

subsection \<open>Notions used to state the properties\<close>

text \<open>The table of the selected variant, and its rows when it has the declared shape.\<close>

definition selected_table :: "app \<Rightarrow> world \<Rightarrow> table" where
  "selected_table a w = (if USE_POSTGRES a then postgres_db w else sqlite_file w)"

definition active_store :: "app \<Rightarrow> world \<Rightarrow> pystr list option" where
  "active_store a w = (case selected_table a w of Votes rows n \<Rightarrow> Some rows | _ \<Rightarrow> None)"

text \<open>The world with the table of the selected variant replaced.\<close>

definition with_selected :: "app \<Rightarrow> world \<Rightarrow> table \<Rightarrow> world" where
  "with_selected a w t = (if USE_POSTGRES a then w\<lparr>postgres_db := t\<rparr> else w\<lparr>sqlite_file := t\<rparr>)"

text \<open>
  What a successful import leaves behind: a table \<open>votes\<close> exists in the selected variant,
  and the Postgres driver is there when that variant is selected.
\<close>

definition initialized :: "app \<Rightarrow> world \<Rightarrow> bool" where
  "initialized a w =
     ((USE_POSTGRES a \<longrightarrow> psycopg2 a \<noteq> None) \<and> selected_table a w \<noteq> No_table)"

text \<open>
  The table of the selected variant has the declared shape and its counter has an id
  left to hand out.
\<close>

definition id_left :: "app \<Rightarrow> world \<Rightarrow> bool" where
  "id_left a w =
     (case selected_table a w of
        Votes rows n \<Rightarrow> n < (if USE_POSTGRES a then postgres_max_serial else sqlite_max_rowid)
      | _ \<Rightarrow> False)"


text \<open>
  The strings the selected variant stores as they are: a string that encodes as UTF-8
  (no surrogate), of at most \<open>sqlite_max_length\<close> bytes in the SQLite file, and of at
  most 255 characters without a NUL character in Postgres.
\<close>

definition column_accepts :: "app \<Rightarrow> pystr \<Rightarrow> bool" where
  "column_accepts a c =
     (utf8_encodable c \<and>
      (if USE_POSTGRES a then length c \<le> 255 \<and> 0 \<notin> set c
       else utf8_length c \<le> sqlite_max_length))"

subsection \<open>Example configurations\<close>

text \<open>
  A value for the driver parameter in the examples: it refuses every parameter that is
  not text. It is not the behaviour of either driver, and no property below calls it.
\<close>

definition example_adapter :: adapter where
  "example_adapter v = Inl InterfaceError"

definition embedded_app :: app where
  "embedded_app =
     \<lparr>DB_HOST = PNone, DB_NAME = str ''postgres'', DB_USER = PNone, DB_PASS = PNone,
      DB_PORT = 5432, USE_POSTGRES = False, psycopg2 = None, sqlite3 = example_adapter\<rparr>"

definition networked_app :: app where
  "networked_app =
     \<lparr>DB_HOST = PStr (str ''db.example''), DB_NAME = str ''postgres'', DB_USER = PNone,
      DB_PASS = PNone, DB_PORT = 5432, USE_POSTGRES = True, psycopg2 = Some example_adapter,
      sqlite3 = example_adapter\<rparr>"

definition no_driver_runtime :: runtime where
  "no_driver_runtime =
     \<lparr>environ = [''DB_HOST'' \<mapsto> str ''db.example''], psycopg2_import = None,
      sqlite3_import = example_adapter, int_builtin = (\<lambda>s. Inl ValueError)\<rparr>"

definition networked_runtime :: runtime where
  "networked_runtime = no_driver_runtime\<lparr>psycopg2_import := Some example_adapter\<rparr>"






definition empty_sqlite :: world where
  "empty_sqlite = \<lparr>sqlite_file = Votes [] 0, postgres_db = No_table\<rparr>"




section \<open>Properties\<close>

subsection \<open>Strings\<close>

lemma str_eq_iff [simp]: "str a = str b \<longleftrightarrow> a = b"
  by (simp add: str_def inj_of_char)

lemma str_Nil_iff [simp]: "str s = [] \<longleftrightarrow> s = []"
  by (simp add: str_def)

lemma length_str [simp]: "length (str s) = length s"
  by (simp add: str_def)

lemma code_point_of_char: "c \<in> set (str s) \<Longrightarrow> c < 256"
  by (auto simp: str_def)

lemma utf8_encodable_str [simp]: "utf8_encodable (str s)"
  by (auto simp: utf8_encodable_def is_surrogate_def dest: code_point_of_char)

lemma utf8_length_le: "utf8_length s \<le> 4 * length s"
  by (induction s) (auto simp: utf8_length_def utf8_bytes_def)


subsection \<open>Aggregation\<close>

lemma foldl_upd_lookup:
  "foldl (\<lambda>d row. d(fst row \<mapsto> snd row)) m (map (\<lambda>c. (c, f c)) ks) c =
     (if c \<in> set ks then Some (f c) else m c)"
  by (induction ks arbitrary: m) auto

lemma dict_of_rows_group_by_count:
  "dict_of_rows (group_by_count rows) c =
     (if c \<in> set rows then Some (int (count_list rows c)) else None)"
  unfolding dict_of_rows_def group_by_count_def
  by (simp add: foldl_upd_lookup)

lemma select_counts_Inr:
  "select_counts e t = Inr m \<longleftrightarrow> (\<exists>rows n. t = Votes rows n \<and> m = dict_of_rows (group_by_count rows))"
  by (cases t) (auto simp: select_counts_def)

lemma active_store_Some:
  "active_store a w = Some rows \<longleftrightarrow> (\<exists>n. selected_table a w = Votes rows n)"
  by (cases "selected_table a w") (auto simp: active_store_def)

lemma get_results_selected:
  assumes "USE_POSTGRES a \<longrightarrow> psycopg2 a \<noteq> None"
  shows "get_results a w =
           select_counts (if USE_POSTGRES a then ProgrammingError else OperationalError)
             (selected_table a w)"
  using assms by (auto simp: get_results_def selected_table_def)

lemma get_results_active:
  "get_results a w = Inr m \<longleftrightarrow>
     (USE_POSTGRES a \<longrightarrow> psycopg2 a \<noteq> None) \<and>
     (\<exists>rows. active_store a w = Some rows \<and> m = dict_of_rows (group_by_count rows))"
proof (cases "USE_POSTGRES a \<longrightarrow> psycopg2 a \<noteq> None")
  case True
  then show ?thesis
    by (simp only: get_results_selected [OF True] select_counts_Inr active_store_Some) blast
next
  case False
  then show ?thesis by (simp add: get_results_def)
qed

lemma startup_initialized:
  "startup rt w = (Inr a, w') \<Longrightarrow> initialized a w'"
  by (auto simp: startup_def initialized_def selected_table_def init_db_def init_postgres_def
      init_sqlite_def create_table_if_not_exists_def Let_def
      split: sum.splits option.splits if_splits table.splits)

subsection \<open>Inserting a row\<close>

lemma sqlite_insert_cases:
  assumes "sqlite_insert d t x = (r, t')"
  shows "(r \<noteq> None \<and> t' = t) \<or>
         (\<exists>rows n c. r = None \<and> t = Votes rows n \<and> t' = Votes (rows @ [c]) (Suc n))"
proof (cases t)
  case No_table
  with assms show ?thesis by (auto simp: sqlite_insert_def)
next
  case Foreign_table
  with assms show ?thesis by (auto simp: sqlite_insert_def)
next
  case (Votes rows n)
  show ?thesis
  proof (cases "sqlite_bind d x")
    case (Inl e)
    with assms Votes show ?thesis by (auto simp: sqlite_insert_def)
  next
    case (Inr v)
    with assms Votes show ?thesis
      by (cases v) (auto simp: sqlite_insert_def split: if_splits)
  qed
qed

lemma postgres_insert_cases:
  assumes "postgres_insert d t x = (r, t')"
  shows "(r \<noteq> None \<and> t' = t) \<or>
         (\<exists>rows n. r = Some IntegrityError \<and> t = Votes rows n \<and> t' = Votes rows (Suc n)) \<or>
         (\<exists>rows n c. r = None \<and> t = Votes rows n \<and> t' = Votes (rows @ [c]) (Suc n))"
proof (cases "psycopg2_adapt d x")
  case (Inl e)
  with assms show ?thesis by (auto simp: postgres_insert_def)
next
  case (Inr v)
  show ?thesis
  proof (cases t)
    case No_table
    with assms Inr show ?thesis by (auto simp: postgres_insert_def)
  next
    case Foreign_table
    with assms Inr show ?thesis by (auto simp: postgres_insert_def)
  next
    case (Votes rows n)
    show ?thesis
    proof (cases v)
      case None
      with assms Inr Votes show ?thesis
        by (auto simp: postgres_insert_def split: if_splits)
    next
      case (Some s)
      with assms Inr Votes show ?thesis
        by (cases "varchar255 s") (auto simp: postgres_insert_def split: if_splits)
    qed
  qed
qed

lemma with_selected_same [simp]: "with_selected a w (selected_table a w) = w"
  by (simp add: with_selected_def selected_table_def)

lemma selected_with_selected [simp]: "selected_table a (with_selected a w t) = t"
  by (simp add: with_selected_def selected_table_def)

text \<open>
  \<open>insert_vote\<close> touches the table of the selected variant only: it leaves it as it is,
  or uses up an id, or appends one row.
\<close>

lemma insert_vote_cases:
  assumes "insert_vote a x w = (r, w')"
  shows "(r \<noteq> None \<and> w' = w) \<or>
         (\<exists>rows n. r = Some IntegrityError \<and> selected_table a w = Votes rows n \<and>
            w' = with_selected a w (Votes rows (Suc n))) \<or>
         (\<exists>rows n c. r = None \<and> selected_table a w = Votes rows n \<and>
            w' = with_selected a w (Votes (rows @ [c]) (Suc n)))"
proof (cases "USE_POSTGRES a")
  case True
  show ?thesis
  proof (cases "psycopg2 a")
    case None
    with assms True show ?thesis by (auto simp: insert_vote_def)
  next
    case (Some d)
    obtain r1 t1 where p: "postgres_insert d (postgres_db w) x = (r1, t1)"
      by (cases "postgres_insert d (postgres_db w) x")
    with assms True Some have r: "r = r1" and w': "w' = w\<lparr>postgres_db := t1\<rparr>"
      by (simp_all add: insert_vote_def)
    from postgres_insert_cases [OF p] r w' True show ?thesis
      by (auto simp: with_selected_def selected_table_def)
  qed
next
  case False
  obtain r1 t1 where p: "sqlite_insert (sqlite3 a) (sqlite_file w) x = (r1, t1)"
    by (cases "sqlite_insert (sqlite3 a) (sqlite_file w) x")
  with assms False have r: "r = r1" and w': "w' = w\<lparr>sqlite_file := t1\<rparr>"
    by (simp_all add: insert_vote_def)
  from sqlite_insert_cases [OF p] r w' False show ?thesis
    by (auto simp: with_selected_def selected_table_def)
qed

lemma insert_vote_touches_selected:
  assumes "insert_vote a x w = (r, w')"
  shows "\<exists>t. w' = with_selected a w t"
  using insert_vote_cases [OF assms] with_selected_same [of a w] by metis

lemma insert_vote_accepted:
  assumes "insert_vote a x w = (None, w')"
  shows "\<exists>rows n c. selected_table a w = Votes rows n \<and>
           w' = with_selected a w (Votes (rows @ [c]) (Suc n))"
  using insert_vote_cases [OF assms] by auto

lemma insert_vote_str:
  assumes "initialized a w" and "id_left a w" and "column_accepts a c"
  shows "\<exists>rows n. selected_table a w = Votes rows n \<and>
           insert_vote a (PStr c) w = (None, with_selected a w (Votes (rows @ [c]) (Suc n)))"
proof -
  from assms(2) obtain rows n where
    t: "selected_table a w = Votes rows n" and
    n: "n < (if USE_POSTGRES a then postgres_max_serial else sqlite_max_rowid)"
    by (cases "selected_table a w") (auto simp: id_left_def)
  show ?thesis
  proof (cases "USE_POSTGRES a")
    case True
    with assms(1) obtain d where d: "psycopg2 a = Some d"
      by (auto simp: initialized_def)
    from True t have pg: "postgres_db w = Votes rows n" by (simp add: selected_table_def)
    from True assms(3) have c: "utf8_encodable c" "length c \<le> 255" "0 \<notin> set c"
      by (simp_all add: column_accepts_def)
    from c have ad: "psycopg2_adapt d (PStr c) = Inr (Some c)" by simp
    from c have vc: "varchar255 c = Inr c" by (simp add: varchar255_def)
    from True n ad vc have "postgres_insert d (Votes rows n) (PStr c)
        = (None, Votes (rows @ [c]) (Suc n))"
      by (simp add: postgres_insert_def)
    with True d pg t show ?thesis
      by (simp add: insert_vote_def with_selected_def)
  next
    case False
    from False t have sq: "sqlite_file w = Votes rows n" by (simp add: selected_table_def)
    from False assms(3) have c: "utf8_encodable c" "utf8_length c \<le> sqlite_max_length"
      by (simp_all add: column_accepts_def)
    from c have b: "sqlite_bind (sqlite3 a) (PStr c) = Inr (Some c)" by simp
    from False n b have "sqlite_insert (sqlite3 a) (Votes rows n) (PStr c)
        = (None, Votes (rows @ [c]) (Suc n))"
      by (simp add: sqlite_insert_def)
    with False sq t show ?thesis
      by (simp add: insert_vote_def with_selected_def)
  qed
qed




text \<open>
  C7. When the table of the selected variant holds no row, \<open>get_results\<close> returns the
  empty mapping.
\<close>

theorem get_results_empty_table:
  assumes "initialized a w" and "active_store a w = Some []"
  shows "get_results a w = Inr Map.empty"
  using assms
  by (simp add: get_results_active initialized_def dict_of_rows_def group_by_count_def)

theorem get_results_empty_table_witness:
  "initialized embedded_app empty_sqlite \<and>
   active_store embedded_app empty_sqlite = Some [] \<and>
   get_results embedded_app empty_sqlite = Inr Map.empty"
proof -
  have h1: "initialized embedded_app empty_sqlite"
    by (simp add: initialized_def selected_table_def embedded_app_def empty_sqlite_def)
  have h2: "active_store embedded_app empty_sqlite = Some []"
    by (simp add: active_store_def selected_table_def embedded_app_def empty_sqlite_def)
  from get_results_empty_table [OF h1 h2] h1 h2 show ?thesis by simp
qed

text \<open>
  C10. Every value of the mapping \<open>get_results\<close> returns is an integer of at least 1 (the
  number of rows of its key), and the keys are exactly the candidates that have a row in
  the table of the selected variant.
\<close>

theorem get_results_counts_positive:
  assumes "get_results a w = Inr m"
  shows "(\<forall>c n. m c = Some n \<longrightarrow> 1 \<le> n) \<and>
         (\<exists>rows. active_store a w = Some rows \<and> dom m = set rows \<and>
            (\<forall>c \<in> set rows. m c = Some (int (count_list rows c))))"
proof -
  from assms obtain rows where
    act: "active_store a w = Some rows" and m: "m = dict_of_rows (group_by_count rows)"
    by (auto simp: get_results_active)
  have pos: "\<forall>c n. m c = Some n \<longrightarrow> 1 \<le> n"
  proof (intro allI impI)
    fix c n assume "m c = Some n"
    with m have "c \<in> set rows" and n: "n = int (count_list rows c)"
      by (auto simp: dict_of_rows_group_by_count split: if_splits)
    then have "count_list rows c \<noteq> 0" by (simp add: count_list_0_iff)
    with n show "1 \<le> n" by simp
  qed
  have keys: "dom m = set rows"
    using m by (auto simp: dom_def dict_of_rows_group_by_count)
  have vals: "\<forall>c \<in> set rows. m c = Some (int (count_list rows c))"
    using m by (simp add: dict_of_rows_group_by_count)
  from act pos keys vals show ?thesis by blast
qed

theorem get_results_counts_positive_witness:
  "get_results embedded_app
     \<lparr>sqlite_file = Votes [str ''AWS'', str ''GCP'', str ''AWS''] 3, postgres_db = No_table\<rparr>
     = Inr (dict_of_rows [(str ''GCP'', 1), (str ''AWS'', 2)]) \<and>
   active_store embedded_app
     \<lparr>sqlite_file = Votes [str ''AWS'', str ''GCP'', str ''AWS''] 3, postgres_db = No_table\<rparr>
     = Some [str ''AWS'', str ''GCP'', str ''AWS''] \<and>
   dom (dict_of_rows [(str ''GCP'', 1), (str ''AWS'', 2)])
     = set [str ''AWS'', str ''GCP'', str ''AWS'']"
proof -
  have h: "get_results embedded_app
     \<lparr>sqlite_file = Votes [str ''AWS'', str ''GCP'', str ''AWS''] 3, postgres_db = No_table\<rparr>
     = Inr (dict_of_rows [(str ''GCP'', 1), (str ''AWS'', 2)])"
    by (simp add: get_results_def select_counts_def embedded_app_def group_by_count_def)
  from get_results_counts_positive [OF h] h show ?thesis
    by (auto simp: active_store_def selected_table_def embedded_app_def)
qed

subsection \<open>The selected variant\<close>

lemma insert_vote_frame:
  "insert_vote a x w = (r, w') \<Longrightarrow>
     (USE_POSTGRES a \<longrightarrow> sqlite_file w' = sqlite_file w) \<and>
     (\<not> USE_POSTGRES a \<longrightarrow> postgres_db w' = postgres_db w)"
  using insert_vote_touches_selected [of a x w r w']
  by (auto simp: with_selected_def)

lemma vote_and_render_frame:
  assumes "vote_and_render a x w = (out, w')"
  shows "(USE_POSTGRES a \<longrightarrow> sqlite_file w' = sqlite_file w) \<and>
         (\<not> USE_POSTGRES a \<longrightarrow> postgres_db w' = postgres_db w)"
proof -
  obtain r w1 where i: "insert_vote a x w = (r, w1)" by (cases "insert_vote a x w")
  with assms have "w' = w1"
    by (auto simp: vote_and_render_def split: option.splits sum.splits)
  with insert_vote_frame [OF i] show ?thesis by simp
qed

lemma api_vote_frame:
  assumes "api_vote a r w = (out, w')"
  shows "(USE_POSTGRES a \<longrightarrow> sqlite_file w' = sqlite_file w) \<and>
         (\<not> USE_POSTGRES a \<longrightarrow> postgres_db w' = postgres_db w)"
proof (cases "truthy (json r) \<and> py_contains (json r) (str ''option'') = Inr True \<and>
              (\<exists>x. py_getitem (json r) (str ''option'') = Inr x)")
  case True
  then obtain x where x: "py_getitem (json r) (str ''option'') = Inr x" by blast
  obtain e w1 where i: "insert_vote a x w = (e, w1)" by (cases "insert_vote a x w")
  with assms True x have "w' = w1"
    by (auto simp: api_vote_def Let_def split: option.splits)
  with insert_vote_frame [OF i] show ?thesis by simp
next
  case False
  with assms have "w' = w"
    by (auto simp: api_vote_def Let_def split: if_splits sum.splits bool.splits)
  then show ?thesis by simp
qed

lemma dispatch_frame:
  "dispatch a r w = (out, w') \<Longrightarrow>
     (USE_POSTGRES a \<longrightarrow> sqlite_file w' = sqlite_file w) \<and>
     (\<not> USE_POSTGRES a \<longrightarrow> postgres_db w' = postgres_db w)"
  unfolding dispatch_def index_def vote_def api_results_def health_def
  by (auto split: if_splits sum.splits dest: vote_and_render_frame api_vote_frame)

lemma serve_frame:
  "serve a rs w = (outs, w') \<Longrightarrow>
     (USE_POSTGRES a \<longrightarrow> sqlite_file w' = sqlite_file w) \<and>
     (\<not> USE_POSTGRES a \<longrightarrow> postgres_db w' = postgres_db w)"
proof (induction rs arbitrary: w outs)
  case Nil
  then show ?case by simp
next
  case (Cons r rs)
  obtain out w1 where d: "dispatch a r w = (out, w1)" by (cases "dispatch a r w")
  obtain outs1 w2 where s: "serve a rs w1 = (outs1, w2)" by (cases "serve a rs w1")
  from Cons.prems d s have "w2 = w'" by simp
  with s have s': "serve a rs w1 = (outs1, w')" by simp
  from Cons.IH [OF s'] dispatch_frame [OF d] show ?case by simp
qed

lemma startup_selection:
  "startup rt w = (Inr a, w') \<Longrightarrow>
     USE_POSTGRES a = (\<exists>h. environ rt ''DB_HOST'' = Some h \<and> h \<noteq> []) \<and>
     (USE_POSTGRES a \<longrightarrow> sqlite_file w' = sqlite_file w) \<and>
     (\<not> USE_POSTGRES a \<longrightarrow> postgres_db w' = postgres_db w)"
  by (auto simp: startup_def environ_get_def init_db_def init_postgres_def init_sqlite_def
      Let_def split: sum.splits option.splits if_splits)

lemma get_results_reads_selected:
  assumes "USE_POSTGRES a \<longrightarrow> psycopg2 a \<noteq> None"
  shows "case active_store a w of
           Some rows \<Rightarrow> get_results a w = Inr (dict_of_rows (group_by_count rows))
         | None \<Rightarrow> (\<exists>e. get_results a w = Inl e)"
proof (cases "selected_table a w")
  case No_table
  then show ?thesis
    by (simp add: get_results_selected [OF assms] active_store_def select_counts_def)
next
  case Foreign_table
  then show ?thesis
    by (simp add: get_results_selected [OF assms] active_store_def select_counts_def)
next
  case (Votes rows n)
  then show ?thesis
    by (simp add: get_results_selected [OF assms] active_store_def select_counts_def)
qed

text \<open>
  C5. The selection is the truth value of \<open>DB_HOST\<close>, computed by the import: a non-empty
  value selects Postgres, an absent or empty one the SQLite file. It holds for the life of
  the process. Whatever requests are served after the import, the store that was not
  selected is at the end what it was before the import. In the state then reached,
  \<open>get_results\<close> returns the counts of the rows of the selected table (and raises when that
  table has no rows to read), whatever the other store holds; \<open>insert_vote\<close> changes
  nothing but the selected table, and a call that returns has appended one row to it.
\<close>

theorem backend_selection_fixed:
  assumes "startup rt w0 = (Inr a, w1)" and "serve a rs w1 = (outs, w2)"
  shows "USE_POSTGRES a = (\<exists>h. environ rt ''DB_HOST'' = Some h \<and> h \<noteq> []) \<and>
         (USE_POSTGRES a \<longrightarrow> sqlite_file w2 = sqlite_file w0) \<and>
         (\<not> USE_POSTGRES a \<longrightarrow> postgres_db w2 = postgres_db w0) \<and>
         selected_table a w2 = (if USE_POSTGRES a then postgres_db w2 else sqlite_file w2) \<and>
         (case active_store a w2 of
            Some rows \<Rightarrow> get_results a w2 = Inr (dict_of_rows (group_by_count rows))
          | None \<Rightarrow> (\<exists>e. get_results a w2 = Inl e)) \<and>
         (\<forall>x r w3. insert_vote a x w2 = (r, w3) \<longrightarrow> (\<exists>t. w3 = with_selected a w2 t)) \<and>
         (\<forall>x w3. insert_vote a x w2 = (None, w3) \<longrightarrow>
            (\<exists>rows n c. selected_table a w2 = Votes rows n \<and>
               w3 = with_selected a w2 (Votes (rows @ [c]) (Suc n))))"
proof -
  from startup_initialized [OF assms(1)] have drv: "USE_POSTGRES a \<longrightarrow> psycopg2 a \<noteq> None"
    by (simp add: initialized_def)
  have sel: "selected_table a w2 = (if USE_POSTGRES a then postgres_db w2 else sqlite_file w2)"
    by (simp add: selected_table_def)
  have ins1: "\<forall>x r w3. insert_vote a x w2 = (r, w3) \<longrightarrow> (\<exists>t. w3 = with_selected a w2 t)"
    using insert_vote_touches_selected by blast
  have ins2: "\<forall>x w3. insert_vote a x w2 = (None, w3) \<longrightarrow>
            (\<exists>rows n c. selected_table a w2 = Votes rows n \<and>
               w3 = with_selected a w2 (Votes (rows @ [c]) (Suc n)))"
    using insert_vote_accepted by blast
  from startup_selection [OF assms(1)] serve_frame [OF assms(2)]
    sel get_results_reads_selected [OF drv, of w2] ins1 ins2
  show ?thesis by simp
qed

theorem backend_selection_fixed_witness:
  "startup networked_runtime \<lparr>sqlite_file = Votes [str ''GCP''] 1, postgres_db = No_table\<rparr>
     = (Inr networked_app, \<lparr>sqlite_file = Votes [str ''GCP''] 1, postgres_db = Votes [] 0\<rparr>) \<and>
   serve networked_app
     [\<lparr>path = ''/api/vote'', request_method = POST, form = Map.empty,
       json = PDict [(str ''option'', PStr (str ''AWS''))]\<rparr>]
     \<lparr>sqlite_file = Votes [str ''GCP''] 1, postgres_db = Votes [] 0\<rparr>
     = ([Inr (Jsonify (PDict [(str ''status'', PStr (str ''ok''))]) 200)],
        \<lparr>sqlite_file = Votes [str ''GCP''] 1, postgres_db = Votes [str ''AWS''] 1\<rparr>) \<and>
   USE_POSTGRES networked_app \<and>
   (\<exists>h. environ networked_runtime ''DB_HOST'' = Some h \<and> h \<noteq> []) \<and>
   get_results networked_app
     \<lparr>sqlite_file = Votes [str ''GCP''] 1, postgres_db = Votes [str ''AWS''] 1\<rparr>
     = Inr (dict_of_rows (group_by_count [str ''AWS'']))"
proof -
  have h1: "startup networked_runtime
       \<lparr>sqlite_file = Votes [str ''GCP''] 1, postgres_db = No_table\<rparr>
     = (Inr networked_app, \<lparr>sqlite_file = Votes [str ''GCP''] 1, postgres_db = Votes [] 0\<rparr>)"
    by (simp add: startup_def networked_runtime_def no_driver_runtime_def networked_app_def
        db_port_def environ_get_def init_db_def init_postgres_def
        create_table_if_not_exists_def)
  have nul: "0 \<notin> set (str ''AWS'')" by (simp add: str_def)
  have h2: "serve networked_app
     [\<lparr>path = ''/api/vote'', request_method = POST, form = Map.empty,
       json = PDict [(str ''option'', PStr (str ''AWS''))]\<rparr>]
     \<lparr>sqlite_file = Votes [str ''GCP''] 1, postgres_db = Votes [] 0\<rparr>
     = ([Inr (Jsonify (PDict [(str ''status'', PStr (str ''ok''))]) 200)],
        \<lparr>sqlite_file = Votes [str ''GCP''] 1, postgres_db = Votes [str ''AWS''] 1\<rparr>)"
    using nul
    by (simp add: dispatch_def api_vote_def insert_vote_def postgres_insert_def varchar255_def
        networked_app_def postgres_max_serial_def)
  have u: "USE_POSTGRES networked_app" by (simp add: networked_app_def)
  have act: "active_store networked_app
       \<lparr>sqlite_file = Votes [str ''GCP''] 1, postgres_db = Votes [str ''AWS''] 1\<rparr>
     = Some [str ''AWS'']"
    by (simp add: active_store_def selected_table_def networked_app_def)
  from backend_selection_fixed [OF h1 h2] u act
  have e: "(\<exists>h. environ networked_runtime ''DB_HOST'' = Some h \<and> h \<noteq> []) \<and>
           get_results networked_app
             \<lparr>sqlite_file = Votes [str ''GCP''] 1, postgres_db = Votes [str ''AWS''] 1\<rparr>
             = Inr (dict_of_rows (group_by_count [str ''AWS'']))"
    by auto
  from h1 h2 u e show ?thesis by blast
qed

subsection \<open>Initialisation at startup\<close>

text \<open>
  C4. When \<open>DB_HOST\<close> is non-empty and \<open>import psycopg2\<close> has failed, the import of the
  module ends in an exception, whatever the rest of the environment: no application
  comes up, and neither store is touched, so the SQLite file is not used in place of
  Postgres. Where the port setting is read without error, the exception is the
  \<open>RuntimeError\<close> of \<open>init_postgres\<close>.
\<close>

theorem startup_without_driver:
  assumes "environ rt ''DB_HOST'' = Some h" and "h \<noteq> []" and "psycopg2_import rt = None"
  shows "(\<exists>e. startup rt w = (Inl e, w)) \<and>
         (\<forall>p. db_port rt = Inr p \<longrightarrow>
            startup rt w =
              (Inl (RuntimeError
                 ''psycopg2 is required for Postgres usage. Install psycopg2-binary.''), w))"
  using assms
  by (auto simp: startup_def environ_get_def init_db_def init_postgres_def Let_def
      split: sum.splits)

theorem startup_without_driver_witness:
  "environ no_driver_runtime ''DB_HOST'' = Some (str ''db.example'') \<and>
   str ''db.example'' \<noteq> [] \<and>
   psycopg2_import no_driver_runtime = None \<and>
   startup no_driver_runtime \<lparr>sqlite_file = No_table, postgres_db = No_table\<rparr> =
     (Inl (RuntimeError ''psycopg2 is required for Postgres usage. Install psycopg2-binary.''),
      \<lparr>sqlite_file = No_table, postgres_db = No_table\<rparr>)"
proof -
  have h1: "environ no_driver_runtime ''DB_HOST'' = Some (str ''db.example'')"
    by (simp add: no_driver_runtime_def)
  have h2: "str ''db.example'' \<noteq> []" by simp
  have h3: "psycopg2_import no_driver_runtime = None"
    by (simp add: no_driver_runtime_def)
  have p: "db_port no_driver_runtime = Inr 5432"
    by (simp add: db_port_def environ_get_def no_driver_runtime_def)
  from startup_without_driver
    [OF h1 h2 h3, of "\<lparr>sqlite_file = No_table, postgres_db = No_table\<rparr>"] p
  show ?thesis using h1 h2 h3 by simp
qed

text \<open>
  C9. The schema setup is idempotent. \<open>init_sqlite\<close> run twice is \<open>init_sqlite\<close> run once,
  and on a file that has the table it changes nothing. \<open>init_postgres\<close> with the driver
  present returns, a second run on its result changes nothing, and on a database that has
  the table it changes nothing. The same holds for the dispatch between the two, whenever
  the driver is there if Postgres is selected.
\<close>

theorem initialize_idempotent:
  "init_sqlite (init_sqlite w) = init_sqlite w \<and>
   (sqlite_file w \<noteq> No_table \<longrightarrow> init_sqlite w = w) \<and>
   (\<exists>w1. init_postgres (Some d) w = Inr w1 \<and> init_postgres (Some d) w1 = Inr w1 \<and>
      (postgres_db w \<noteq> No_table \<longrightarrow> w1 = w)) \<and>
   ((use_postgres \<longrightarrow> drv \<noteq> None) \<longrightarrow>
      (\<exists>w1. init_db use_postgres drv w = Inr w1 \<and> init_db use_postgres drv w1 = Inr w1 \<and>
         ((if use_postgres then postgres_db w else sqlite_file w) \<noteq> No_table \<longrightarrow> w1 = w)))"
proof -
  have c: "create_table_if_not_exists (create_table_if_not_exists t)
             = create_table_if_not_exists t" for t
    by (cases t) (simp_all add: create_table_if_not_exists_def)
  have k: "t \<noteq> No_table \<Longrightarrow> create_table_if_not_exists t = t" for t
    by (cases t) (simp_all add: create_table_if_not_exists_def)
  have s1: "init_sqlite (init_sqlite w) = init_sqlite w" for w
    by (simp add: init_sqlite_def c)
  have s2: "sqlite_file w \<noteq> No_table \<longrightarrow> init_sqlite w = w" for w
    by (simp add: init_sqlite_def k)
  have p: "\<exists>w1. init_postgres (Some d) w = Inr w1 \<and> init_postgres (Some d) w1 = Inr w1 \<and>
      (postgres_db w \<noteq> No_table \<longrightarrow> w1 = w)" for d w
    by (simp add: init_postgres_def c k)
  have i: "(use_postgres \<longrightarrow> drv \<noteq> None) \<longrightarrow>
      (\<exists>w1. init_db use_postgres drv w = Inr w1 \<and> init_db use_postgres drv w1 = Inr w1 \<and>
         ((if use_postgres then postgres_db w else sqlite_file w) \<noteq> No_table \<longrightarrow> w1 = w))"
  proof (cases use_postgres)
    case True
    show ?thesis
    proof
      assume "use_postgres \<longrightarrow> drv \<noteq> None"
      with True obtain d' where "drv = Some d'" by auto
      with True p [of d' w] show "\<exists>w1. init_db use_postgres drv w = Inr w1 \<and>
         init_db use_postgres drv w1 = Inr w1 \<and>
         ((if use_postgres then postgres_db w else sqlite_file w) \<noteq> No_table \<longrightarrow> w1 = w)"
        by (simp add: init_db_def)
    qed
  next
    case False
    with s1 [of w] s2 [of w] show ?thesis by (simp add: init_db_def)
  qed
  from s1 s2 p i show ?thesis by blast
qed

theorem initialize_idempotent_witness:
  "sqlite_file \<lparr>sqlite_file = Votes [str ''AWS''] 1, postgres_db = Votes [str ''GCP''] 1\<rparr>
     \<noteq> No_table \<and>
   postgres_db \<lparr>sqlite_file = Votes [str ''AWS''] 1, postgres_db = Votes [str ''GCP''] 1\<rparr>
     \<noteq> No_table \<and>
   init_sqlite \<lparr>sqlite_file = Votes [str ''AWS''] 1, postgres_db = Votes [str ''GCP''] 1\<rparr>
     = \<lparr>sqlite_file = Votes [str ''AWS''] 1, postgres_db = Votes [str ''GCP''] 1\<rparr> \<and>
   init_postgres (Some example_adapter)
       \<lparr>sqlite_file = Votes [str ''AWS''] 1, postgres_db = Votes [str ''GCP''] 1\<rparr>
     = Inr \<lparr>sqlite_file = Votes [str ''AWS''] 1, postgres_db = Votes [str ''GCP''] 1\<rparr> \<and>
   init_db True (Some example_adapter)
       \<lparr>sqlite_file = Votes [str ''AWS''] 1, postgres_db = Votes [str ''GCP''] 1\<rparr>
     = Inr \<lparr>sqlite_file = Votes [str ''AWS''] 1, postgres_db = Votes [str ''GCP''] 1\<rparr>"
  using initialize_idempotent
    [of "\<lparr>sqlite_file = Votes [str ''AWS''] 1, postgres_db = Votes [str ''GCP''] 1\<rparr>"
        example_adapter True "Some example_adapter"]
  by auto

subsection \<open>The view functions\<close>

text \<open>
  C8. \<open>GET /\<close>, \<open>GET /api/results\<close> and \<open>GET /health\<close> leave both stores as they are; a
  request after which a store differs is a \<open>POST\<close> to \<open>/\<close>, \<open>/vote\<close> or \<open>/api/vote\<close>.
\<close>

theorem reads_leave_storage:
  "snd (dispatch a (r\<lparr>path := ''/'', request_method := GET\<rparr>) w) = w \<and>
   snd (dispatch a (r\<lparr>path := ''/api/results'', request_method := GET\<rparr>) w) = w \<and>
   snd (dispatch a (r\<lparr>path := ''/health'', request_method := GET\<rparr>) w) = w \<and>
   (snd (dispatch a r w) \<noteq> w \<longrightarrow>
      request_method r = POST \<and> path r \<in> {''/'', ''/vote'', ''/api/vote''})"
  unfolding dispatch_def index_def api_results_def health_def
  by (auto split: if_splits sum.splits)

theorem reads_leave_storage_witness:
  "snd (dispatch embedded_app
         \<lparr>path = ''/api/vote'', request_method = POST, form = Map.empty,
          json = PDict [(str ''option'', PStr (str ''AWS''))]\<rparr>
         empty_sqlite)
     \<noteq> empty_sqlite \<and>
   snd (dispatch embedded_app
         \<lparr>path = ''/api/results'', request_method = GET, form = Map.empty, json = PNone\<rparr>
         \<lparr>sqlite_file = Votes [str ''AWS''] 1, postgres_db = No_table\<rparr>)
     = \<lparr>sqlite_file = Votes [str ''AWS''] 1, postgres_db = No_table\<rparr>"
proof -
  have h: "snd (dispatch embedded_app
         \<lparr>path = ''/api/vote'', request_method = POST, form = Map.empty,
          json = PDict [(str ''option'', PStr (str ''AWS''))]\<rparr>
         empty_sqlite)
     \<noteq> empty_sqlite"
    using utf8_length_le [of "str ''AWS''"]
    by (simp add: dispatch_def api_vote_def insert_vote_def sqlite_insert_def embedded_app_def
        empty_sqlite_def sqlite_max_length_def sqlite_max_rowid_def)
  from reads_leave_storage
    [of embedded_app
        "\<lparr>path = ''/api/results'', request_method = GET, form = Map.empty, json = PNone\<rparr>"
        "\<lparr>sqlite_file = Votes [str ''AWS''] 1, postgres_db = No_table\<rparr>"] h
  show ?thesis by simp
qed

text \<open>
  C6. A \<open>POST\<close> whose form has no \<open>option\<close> field, or an empty one, inserts nothing and
  leaves both stores as they are: on \<open>/\<close> the answer is the form page, rendered without
  arguments, and on \<open>/vote\<close> a redirect to \<open>/\<close>.
\<close>

theorem form_without_option:
  assumes "form r (str ''option'') = None \<or> form r (str ''option'') = Some []"
  shows "dispatch a (r\<lparr>path := ''/'', request_method := POST\<rparr>) w = (Inr Render_index, w) \<and>
         dispatch a (r\<lparr>path := ''/vote'', request_method := POST\<rparr>) w
           = (Inr (Redirect ''/''), w)"
  using assms
  by (auto simp: dispatch_def index_def vote_def form_get_def)

theorem form_without_option_witness:
  "(form \<lparr>path = ''/vote'', request_method = POST, form = [str ''name'' \<mapsto> str ''x''],
          json = PNone\<rparr> (str ''option'') = None \<or>
    form \<lparr>path = ''/vote'', request_method = POST, form = [str ''name'' \<mapsto> str ''x''],
          json = PNone\<rparr> (str ''option'') = Some []) \<and>
   dispatch embedded_app
     \<lparr>path = ''/'', request_method = POST, form = [str ''name'' \<mapsto> str ''x''], json = PNone\<rparr>
     \<lparr>sqlite_file = Votes [str ''AWS''] 1, postgres_db = No_table\<rparr>
     = (Inr Render_index, \<lparr>sqlite_file = Votes [str ''AWS''] 1, postgres_db = No_table\<rparr>) \<and>
   dispatch embedded_app
     \<lparr>path = ''/vote'', request_method = POST, form = [str ''name'' \<mapsto> str ''x''],
      json = PNone\<rparr>
     \<lparr>sqlite_file = Votes [str ''AWS''] 1, postgres_db = No_table\<rparr>
     = (Inr (Redirect ''/''), \<lparr>sqlite_file = Votes [str ''AWS''] 1, postgres_db = No_table\<rparr>)"
proof -
  have h: "form \<lparr>path = ''/vote'', request_method = POST,
                 form = [str ''name'' \<mapsto> str ''x''], json = PNone\<rparr> (str ''option'') = None \<or>
    form \<lparr>path = ''/vote'', request_method = POST, form = [str ''name'' \<mapsto> str ''x''],
          json = PNone\<rparr> (str ''option'') = Some []"
    by simp
  from form_without_option [OF h, of embedded_app
      "\<lparr>sqlite_file = Votes [str ''AWS''] 1, postgres_db = No_table\<rparr>"] h
  show ?thesis by simp
qed

subsection \<open>The JSON vote endpoint\<close>

text \<open>
  What \<open>api_vote\<close> does by its guard: a body that is absent or falsy, and an object
  without the key, are answered with 400 and insert nothing; an object whose \<open>option\<close> is
  a text the selected variant stores is answered with 200.
\<close>

lemma api_vote_falsy:
  "\<not> truthy (json r) \<Longrightarrow>
     api_vote a r w
       = (Inr (Jsonify (PDict [(str ''error'', PStr (str ''option required''))]) 400), w)"
  by (simp add: api_vote_def)

lemma api_vote_object_lacks_key:
  "json r = PDict kvs \<Longrightarrow> str ''option'' \<notin> fst ` set kvs \<Longrightarrow>
     api_vote a r w
       = (Inr (Jsonify (PDict [(str ''error'', PStr (str ''option required''))]) 400), w)"
  by (simp add: api_vote_def Let_def)

lemma api_vote_object_with_text:
  assumes "json r = PDict kvs" and "map_of kvs (str ''option'') = Some (PStr c)"
    and "initialized a w" and "id_left a w" and "column_accepts a c"
  shows "\<exists>w'. api_vote a r w
           = (Inr (Jsonify (PDict [(str ''status'', PStr (str ''ok''))]) 200), w')"
proof -
  from assms(2) have k: "str ''option'' \<in> fst ` set kvs"
    by (metis map_of_eq_None_iff option.distinct(1))
  then have ne: "kvs \<noteq> []" by auto
  from insert_vote_str [OF assms(3,4,5)] obtain w' where
    "insert_vote a (PStr c) w = (None, w')"
    by blast
  with assms(1,2) k ne show ?thesis by (simp add: api_vote_def Let_def)
qed

text \<open>An object whose \<open>option\<close> is \<open>null\<close> has the key; the \<open>INSERT\<close> raises.\<close>

lemma api_vote_null_option:
  "dispatch embedded_app
     \<lparr>path = ''/api/vote'', request_method = POST, form = Map.empty,
      json = PDict [(str ''option'', PNone)]\<rparr>
     empty_sqlite
   = (Inl IntegrityError, empty_sqlite)"
  by (simp add: dispatch_def api_vote_def insert_vote_def sqlite_insert_def embedded_app_def
      empty_sqlite_def sqlite_max_rowid_def)

text \<open>
  C2 fails on the code. A \<open>POST\<close> to \<open>/api/vote\<close> whose body is the JSON number \<open>5\<close> has no
  key \<open>option\<close>, yet it is not answered with 400: the test \<open>'option' not in data\<close> raises
  \<open>TypeError\<close> on an integer, which the framework answers with 500. Nothing is inserted.
\<close>

theorem api_vote_non_object_body:
  "dispatch a \<lparr>path = ''/api/vote'', request_method = POST, form = f, json = PInt 5\<rparr> w
     = (Inl TypeError, w) \<and> status_code (Inl TypeError) = Some 500"
  by (simp add: dispatch_def api_vote_def)

subsection \<open>Stored candidates\<close>

lemma varchar255_nonempty:
  assumes "varchar255 c = Inr s" and "c \<noteq> []"
  shows "s \<noteq> []"
proof (cases "length c \<le> 255")
  case True
  with assms(1) have "s = c"
    by (simp add: varchar255_def split: if_splits)
  with assms(2) show ?thesis by simp
next
  case False
  with assms(1) have "s = take 255 c"
    by (simp add: varchar255_def split: if_splits)
  with assms(2) show ?thesis by simp
qed

lemma sqlite_insert_text:
  assumes "sqlite_insert d (Votes rows n) (PStr c) = (r, t)"
  shows "(\<exists>m. t = Votes rows m) \<or> (\<exists>m. t = Votes (rows @ [c]) m)"
  using assms by (auto simp: sqlite_insert_def split: if_splits)

lemma postgres_insert_text:
  assumes "postgres_insert d (Votes rows n) (PStr c) = (r, t)"
  shows "(\<exists>m. t = Votes rows m) \<or> (\<exists>m s. varchar255 c = Inr s \<and> t = Votes (rows @ [s]) m)"
proof (cases "psycopg2_adapt d (PStr c)")
  case (Inl e)
  with assms show ?thesis by (auto simp: postgres_insert_def)
next
  case (Inr v)
  then have v: "v = Some c" by (auto split: if_splits)
  show ?thesis
  proof (cases "varchar255 c")
    case (Inl e)
    with assms Inr v show ?thesis by (auto simp: postgres_insert_def)
  next
    case (Inr s)
    with assms \<open>psycopg2_adapt d (PStr c) = Inr v\<close> v show ?thesis
      by (auto simp: postgres_insert_def split: if_splits)
  qed
qed

lemma insert_vote_text_nonempty:
  assumes "insert_vote a (PStr c) w = (r, w')" and "c \<noteq> []"
    and "active_store a w = Some rows" and "[] \<notin> set rows"
  shows "\<exists>rows'. active_store a w' = Some rows' \<and> [] \<notin> set rows'"
proof -
  from assms(3) obtain n where t: "selected_table a w = Votes rows n"
    by (auto simp: active_store_Some)
  show ?thesis
  proof (cases "USE_POSTGRES a")
    case True
    with t have pg: "postgres_db w = Votes rows n" by (simp add: selected_table_def)
    show ?thesis
    proof (cases "psycopg2 a")
      case None
      with assms(1) True have "w' = w" by (auto simp: insert_vote_def)
      with assms(3,4) show ?thesis by simp
    next
      case (Some d)
      obtain r1 t1 where p: "postgres_insert d (Votes rows n) (PStr c) = (r1, t1)"
        by (cases "postgres_insert d (Votes rows n) (PStr c)")
      with assms(1) True Some pg have w': "w' = w\<lparr>postgres_db := t1\<rparr>"
        by (auto simp: insert_vote_def)
      from postgres_insert_text [OF p] assms(2,4)
      have "\<exists>rows' m. t1 = Votes rows' m \<and> [] \<notin> set rows'"
        by (auto dest: varchar255_nonempty)
      with w' True show ?thesis
        by (auto simp: active_store_def selected_table_def)
    qed
  next
    case False
    with t have sq: "sqlite_file w = Votes rows n" by (simp add: selected_table_def)
    obtain r1 t1 where p: "sqlite_insert (sqlite3 a) (Votes rows n) (PStr c) = (r1, t1)"
      by (cases "sqlite_insert (sqlite3 a) (Votes rows n) (PStr c)")
    with assms(1) False sq have w': "w' = w\<lparr>sqlite_file := t1\<rparr>"
      by (auto simp: insert_vote_def)
    from sqlite_insert_text [OF p] assms(2,4)
    have "\<exists>rows' m. t1 = Votes rows' m \<and> [] \<notin> set rows'" by auto
    with w' False show ?thesis
      by (auto simp: active_store_def selected_table_def)
  qed
qed

lemma vote_and_render_nonempty:
  assumes "vote_and_render a (PStr c) w = (out, w')" and "c \<noteq> []"
    and "active_store a w = Some rows" and "[] \<notin> set rows"
  shows "\<exists>rows'. active_store a w' = Some rows' \<and> [] \<notin> set rows'"
proof -
  obtain r w1 where i: "insert_vote a (PStr c) w = (r, w1)"
    by (cases "insert_vote a (PStr c) w")
  with assms(1) have "w' = w1"
    by (auto simp: vote_and_render_def split: option.splits sum.splits)
  with insert_vote_text_nonempty [OF i assms(2,3,4)] show ?thesis by simp
qed

text \<open>
  The two form views test \<open>if provider:\<close> before they insert: a table whose candidates are
  all non-empty stays so.
\<close>

lemma form_views_keep_nonempty:
  assumes "active_store a w = Some rows" and "[] \<notin> set rows"
    and "index a r w = (out, w') \<or> vote a r w = (out, w')"
  shows "\<exists>rows'. active_store a w' = Some rows' \<and> [] \<notin> set rows'"
proof (cases "truthy (form_get r (str ''option''))")
  case False
  with assms(3) have "w' = w" by (auto simp: index_def vote_def)
  with assms(1,2) show ?thesis by simp
next
  case True
  then obtain c where c: "form_get r (str ''option'') = PStr c" and ne: "c \<noteq> []"
    by (auto simp: form_get_def split: option.splits)
  from assms(3) True c have "vote_and_render a (PStr c) w = (out, w') \<or> w' = w"
    by (auto simp: index_def vote_def split: if_splits)
  then show ?thesis
  proof
    assume "vote_and_render a (PStr c) w = (out, w')"
    from vote_and_render_nonempty [OF this ne assms(1,2)] show ?thesis .
  next
    assume "w' = w"
    with assms(1,2) show ?thesis by simp
  qed
qed

text \<open>
  C3 fails on the code. The form views keep every stored candidate non-empty, but
  \<open>api_vote\<close> only tests that the key is there: the body \<open>{"option": ""}\<close> is answered with
  200, and a row with the empty candidate is stored.
\<close>

theorem api_vote_stores_empty_candidate:
  "dispatch embedded_app
     \<lparr>path = ''/api/vote'', request_method = POST, form = Map.empty,
      json = PDict [(str ''option'', PStr [])]\<rparr>
     \<lparr>sqlite_file = Votes [] 0, postgres_db = No_table\<rparr>
   = (Inr (Jsonify (PDict [(str ''status'', PStr (str ''ok''))]) 200),
      \<lparr>sqlite_file = Votes [[]] 1, postgres_db = No_table\<rparr>)"
  by (simp add: dispatch_def api_vote_def insert_vote_def sqlite_insert_def embedded_app_def
      utf8_encodable_def utf8_length_def sqlite_max_length_def sqlite_max_rowid_def)

end
